theory Spec2Isabelle
  imports Main "HOL-Library.Word" "HOL-Library.Signed_Division"
begin

unbundle bit_operations_syntax

section \<open>File types and their labels\<close>

text \<open>
  \<^verbatim>\<open>type FileType = asn1.Enumerated\<close>, a Go \<^verbatim>\<open>int\<close>. No arithmetic is ever done on
  a file type code, so the code is an unbounded integer here; the eight constants keep
  the values of the source.
\<close>

type_synonym FileType = int

definition FileTypeUnspecified :: FileType where
  "FileTypeUnspecified = 0"

definition FileTypeBlck :: FileType where
  "FileTypeBlck = 104"

definition FileTypeChar :: FileType where
  "FileTypeChar = 103"

definition FileTypeFldr :: FileType where
  "FileTypeFldr = 105"

definition FileTypeRglr :: FileType where
  "FileTypeRglr = 100"

definition FileTypeSyml :: FileType where
  "FileTypeSyml = 102"

definition FileTypePipe :: FileType where
  "FileTypePipe = 106"

definition FileTypeSock :: FileType where
  "FileTypeSock = 109"

type_synonym FileTypeToString = "FileType \<Rightarrow> string"

type_synonym FileTypeToStringMap = "FileType \<rightharpoonup> string"

definition fileTypeToStringMap :: FileTypeToStringMap where
  "fileTypeToStringMap =
     [FileTypeUnspecified \<mapsto> ''UNKNOWN FILE TYPE'',
      FileTypeBlck \<mapsto> ''block special'',
      FileTypeChar \<mapsto> ''character special'',
      FileTypeFldr \<mapsto> ''directory'',
      FileTypeRglr \<mapsto> ''regular file'',
      FileTypeSyml \<mapsto> ''symbolic link'',
      FileTypePipe \<mapsto> ''FIFO'',
      FileTypeSock \<mapsto> ''socket'']"

definition FileTypeToStringMapDefault :: FileTypeToStringMap where
  "FileTypeToStringMapDefault = fileTypeToStringMap"

text \<open>
  A Go map read at a key it does not hold gives the zero value of the element type, the
  empty string: that is the inner \<open>None\<close> branch.
\<close>

definition ToFileTypeToString :: "FileTypeToStringMap \<Rightarrow> FileTypeToString" where
  "ToFileTypeToString m =
     (\<lambda>typ. case m typ of
        Some val \<Rightarrow> val
      | None \<Rightarrow> (case m FileTypeUnspecified of Some val \<Rightarrow> val | None \<Rightarrow> []))"

definition FileTypeToStringDefault :: FileTypeToString where
  "FileTypeToStringDefault = ToFileTypeToString FileTypeToStringMapDefault"

section \<open>File modes\<close>

text \<open>
  \<^verbatim>\<open>type FileMode struct{ fs.FileMode }\<close> wraps the \<^verbatim>\<open>uint32\<close> of package
  \<^verbatim>\<open>io/fs\<close>. The mode bits and the two predicates \<^verbatim>\<open>IsRegular\<close> and \<^verbatim>\<open>IsDir\<close>
  are those of \<^verbatim>\<open>io/fs\<close>, which the source imports: the type bits count down from
  bit 31.
\<close>

type_synonym FileMode = "32 word"

definition ModeDir :: FileMode where
  "ModeDir = push_bit 31 1"

definition ModeSymlink :: FileMode where
  "ModeSymlink = push_bit 27 1"

definition ModeDevice :: FileMode where
  "ModeDevice = push_bit 26 1"

definition ModeNamedPipe :: FileMode where
  "ModeNamedPipe = push_bit 25 1"

definition ModeSocket :: FileMode where
  "ModeSocket = push_bit 24 1"

definition ModeCharDevice :: FileMode where
  "ModeCharDevice = push_bit 21 1"

definition ModeIrregular :: FileMode where
  "ModeIrregular = push_bit 19 1"

definition ModeType :: FileMode where
  "ModeType = ModeDir OR ModeSymlink OR ModeNamedPipe OR ModeSocket OR ModeDevice
     OR ModeCharDevice OR ModeIrregular"

definition IsRegular :: "FileMode \<Rightarrow> bool" where
  "IsRegular m \<longleftrightarrow> m AND ModeType = 0"

definition IsDir :: "FileMode \<Rightarrow> bool" where
  "IsDir m \<longleftrightarrow> m AND ModeDir \<noteq> 0"

definition IsSymlink :: "FileMode \<Rightarrow> bool" where
  "IsSymlink m \<longleftrightarrow> 0 \<noteq> (m AND ModeSymlink)"

definition IsNamedPipe :: "FileMode \<Rightarrow> bool" where
  "IsNamedPipe m \<longleftrightarrow> 0 \<noteq> (m AND ModeNamedPipe)"

definition IsSocket :: "FileMode \<Rightarrow> bool" where
  "IsSocket m \<longleftrightarrow> 0 \<noteq> (m AND ModeSocket)"

definition IsCharDevice :: "FileMode \<Rightarrow> bool" where
  "IsCharDevice m \<longleftrightarrow> 0 \<noteq> (m AND ModeCharDevice)"

definition IsDevice :: "FileMode \<Rightarrow> bool" where
  "IsDevice m \<longleftrightarrow> 0 \<noteq> (m AND ModeDevice)"

definition IsBlockDevice :: "FileMode \<Rightarrow> bool" where
  "IsBlockDevice m =
     (let isDevice = IsDevice m;
          isChar = IsCharDevice m;
          isNotChar = \<not> isChar
      in isDevice \<and> isNotChar)"

text \<open>The \<^verbatim>\<open>switch\<close> of \<^verbatim>\<open>ToFileType\<close>: the cases in the order of the source.\<close>

definition ToFileType :: "FileMode \<Rightarrow> FileType" where
  "ToFileType m =
     (if IsRegular m then FileTypeRglr
      else if IsDir m then FileTypeFldr
      else if IsSymlink m then FileTypeSyml
      else if IsNamedPipe m then FileTypePipe
      else if IsSocket m then FileTypeSock
      else if IsCharDevice m then FileTypeChar
      else if IsBlockDevice m then FileTypeBlck
      else FileTypeUnspecified)"

subsection \<open>The precedence list of the specification\<close>

text \<open>
  A category is a test on the mode together with the code it stands for; a list of
  categories is read front to back and the first test that holds decides.
\<close>

fun first_match :: "((FileMode \<Rightarrow> bool) \<times> FileType) list \<Rightarrow> FileMode \<Rightarrow> FileType" where
  "first_match [] m = FileTypeUnspecified"
| "first_match ((test, typ) # rest) m = (if test m then typ else first_match rest m)"

text \<open>
  The list in the words of the specification: a character device has the device bit and
  the character bit, a block device the device bit without the character bit.
\<close>

definition spec_precedence :: "((FileMode \<Rightarrow> bool) \<times> FileType) list" where
  "spec_precedence =
     [(IsRegular, FileTypeRglr),
      (IsDir, FileTypeFldr),
      (IsSymlink, FileTypeSyml),
      (IsNamedPipe, FileTypePipe),
      (IsSocket, FileTypeSock),
      (\<lambda>m. IsDevice m \<and> IsCharDevice m, FileTypeChar),
      (\<lambda>m. IsDevice m \<and> \<not> IsCharDevice m, FileTypeBlck)]"

text \<open>
  The same list with the one change the source needs: the character bit alone makes a
  character device, whatever the device bit.
\<close>

definition code_precedence :: "((FileMode \<Rightarrow> bool) \<times> FileType) list" where
  "code_precedence =
     [(IsRegular, FileTypeRglr),
      (IsDir, FileTypeFldr),
      (IsSymlink, FileTypeSyml),
      (IsNamedPipe, FileTypePipe),
      (IsSocket, FileTypeSock),
      (IsCharDevice, FileTypeChar),
      (\<lambda>m. IsDevice m \<and> \<not> IsCharDevice m, FileTypeBlck)]"

section \<open>Times\<close>

text \<open>
  A \<^verbatim>\<open>time.Time\<close> is an instant: whole seconds since the Unix epoch and the nanoseconds
  within that second (\<^verbatim>\<open>unixSec\<close> and \<^verbatim>\<open>nsec\<close> of package \<^verbatim>\<open>time\<close>). The source calls
  \<^verbatim>\<open>time.UnixMicro\<close> and the method \<^verbatim>\<open>Time.UnixMicro\<close> of that package; they are
  written out here as the package defines them. Go's \<^verbatim>\<open>/\<close> and \<^verbatim>\<open>%\<close> truncate towards
  zero: \<open>sdiv\<close> and \<open>smod\<close>.
\<close>

record Time =
  unixSec :: int
  nsec :: int

definition time_Unix :: "int \<Rightarrow> int \<Rightarrow> Time" where
  "time_Unix sec ns =
     (if ns < 0 \<or> 1000000000 \<le> ns then
        (let n = ns sdiv 1000000000;
             sec1 = sec + n;
             ns1 = ns - n * 1000000000
         in if ns1 < 0 then \<lparr>unixSec = sec1 - 1, nsec = ns1 + 1000000000\<rparr>
            else \<lparr>unixSec = sec1, nsec = ns1\<rparr>)
      else \<lparr>unixSec = sec, nsec = ns\<rparr>)"

definition time_UnixMicro :: "int \<Rightarrow> Time" where
  "time_UnixMicro usec = time_Unix (usec sdiv 1000000) ((usec smod 1000000) * 1000)"

text \<open>The method \<^verbatim>\<open>t.UnixMicro()\<close>: an \<^verbatim>\<open>int64\<close>, so the sum wraps around.\<close>

definition Time_UnixMicro :: "Time \<Rightarrow> 64 word" where
  "Time_UnixMicro t = word_of_int (unixSec t * 1000000 + nsec t sdiv 1000)"

type_synonym UnixtimeUs = "64 word"

definition ToTime :: "UnixtimeUs \<Rightarrow> Time" where
  "ToTime u = time_UnixMicro (sint u)"

section \<open>Records\<close>

text \<open>
  \<^verbatim>\<open>BasicStatJson\<close>: each field carries the name of its JSON tag, which is the name of
  the member in the encoded object.
\<close>

record BasicStatJson =
  json_path :: string
  json_size :: "64 word"
  json_modified_time :: Time
  json_file_type :: string

record BasicStat =
  Path :: string
  Size :: "64 word"
  Modified :: UnixtimeUs
  FileType :: FileType

definition ToJsonObj :: "BasicStat \<Rightarrow> FileTypeToString \<Rightarrow> BasicStatJson" where
  "ToJsonObj b t2s =
     \<lparr>json_path = Path b,
      json_size = Size b,
      json_modified_time = ToTime (Modified b),
      json_file_type = t2s (FileType b)\<rparr>"

definition WithFullPath :: "BasicStat \<Rightarrow> string \<Rightarrow> BasicStat" where
  "WithFullPath b f = b\<lparr>Path := f\<rparr>"

text \<open>
  \<^verbatim>\<open>fs.FileInfo\<close>, by the three methods the source calls on it: \<^verbatim>\<open>Size()\<close>,
  \<^verbatim>\<open>ModTime()\<close> and \<^verbatim>\<open>Mode()\<close>.
\<close>

record FileInfo =
  fi_Size :: "64 word"
  fi_ModTime :: Time
  fi_Mode :: FileMode

definition ToBasicStat :: "FileInfo \<Rightarrow> BasicStat" where
  "ToBasicStat i =
     \<lparr>Path = [],
      Size = fi_Size i,
      Modified = Time_UnixMicro (fi_ModTime i),
      FileType = ToFileType (fi_Mode i)\<rparr>"

section \<open>The sandbox root\<close>

text \<open>
  Modelled from the spec: the error kinds of its section 7. The source only passes on
  the \<^verbatim>\<open>error\<close> values that \<^verbatim>\<open>os.Root\<close> and the JSON encoder return.
\<close>

datatype error =
  ConfigMissing | RootUnavailable | PathEscapesRoot | NameNotFound | StatUnavailable
  | EncodeFailure

text \<open>
  What walking a name from the root directory comes to: an entry inside the root, a walk
  that would leave the root (through \<^verbatim>\<open>..\<close> or a symbolic link), no entry, or a failure
  of the query. An open root is the function that tells this for every name.
\<close>

datatype lookup = Found FileInfo | Escapes | Missing | Unavailable

type_synonym Root = "string \<Rightarrow> lookup"

text \<open>
  Modelled from the spec: \<^verbatim>\<open>os.Root.Stat\<close> of the Go standard library, which is not part
  of the sources. It rejects a resolution that would escape the root with
  \<open>PathEscapesRoot\<close>, fails with \<open>NameNotFound\<close> where no entry exists and with
  \<open>StatUnavailable\<close> on another failure, and otherwise gives the metadata.
\<close>

definition Root_Stat :: "Root \<Rightarrow> string \<Rightarrow> error + FileInfo" where
  "Root_Stat r name =
     (case r name of
        Found fi \<Rightarrow> Inr fi
      | Escapes \<Rightarrow> Inl PathEscapesRoot
      | Missing \<Rightarrow> Inl NameNotFound
      | Unavailable \<Rightarrow> Inl StatUnavailable)"

definition NameToInfo :: "Root \<Rightarrow> string \<Rightarrow> error + FileInfo" where
  "NameToInfo r fullpath = Root_Stat r fullpath"

text \<open>\<^verbatim>\<open>var empty BasicStat\<close>: the zero value.\<close>

definition empty_BasicStat :: BasicStat where
  "empty_BasicStat = \<lparr>Path = [], Size = 0, Modified = 0, FileType = 0\<rparr>"

text \<open>Go returns the pair \<^verbatim>\<open>(BasicStat, error)\<close>; \<open>None\<close> is the \<^verbatim>\<open>nil\<close> error.\<close>

definition NameToBasicStat :: "Root \<Rightarrow> string \<Rightarrow> BasicStat \<times> error option" where
  "NameToBasicStat r fullpath =
     (case NameToInfo r fullpath of
        Inl e \<Rightarrow> (empty_BasicStat, Some e)
      | Inr fi \<Rightarrow> (WithFullPath (ToBasicStat fi) fullpath, None))"

type_synonym FilenameToBasicStat = "string \<Rightarrow> BasicStat \<times> error option"

definition ToFilenameToBasicStat :: "Root \<Rightarrow> FilenameToBasicStat" where
  "ToFilenameToBasicStat r = NameToBasicStat r"

section \<open>Iterators\<close>

text \<open>
  A Go \<^verbatim>\<open>iter.Seq\<close> is a function that is handed \<^verbatim>\<open>yield\<close> and calls it once for each
  element until \<^verbatim>\<open>yield\<close> answers \<^verbatim>\<open>false\<close>. The consumer's variables are the state
  \<open>'s\<close> that \<^verbatim>\<open>yield\<close> reads and updates; running a sequence returns that state together
  with what is left of the sequence's own source (\<open>'r\<close>).
\<close>

type_synonym ('a, 's) yield = "'a \<Rightarrow> 's \<Rightarrow> bool \<times> 's"

type_synonym ('a, 'r, 's) Seq = "('a, 's) yield \<Rightarrow> 's \<Rightarrow> 'r \<times> 's"

text \<open>
  \<^verbatim>\<open>ReaderToNames\<close>: the reader is the list of lines its scanner has still to deliver;
  every \<^verbatim>\<open>s.Scan()\<close> takes the first one. The lines never scanned are returned.
\<close>

fun ReaderToNames :: "string list \<Rightarrow> (string, string list, 's) Seq" where
  "ReaderToNames [] yield s = ([], s)"
| "ReaderToNames (fullpath # rdr) yield s =
     (case yield fullpath s of
        (continue, s') \<Rightarrow> if continue then ReaderToNames rdr yield s' else (rdr, s'))"

text \<open>
  \<^verbatim>\<open>NamesToBasicStats\<close>: the body of \<^verbatim>\<open>for name := range names\<close> is the function handed
  to \<^verbatim>\<open>names\<close>; it stops the loop exactly when \<^verbatim>\<open>yield\<close> answers \<^verbatim>\<open>false\<close>.
\<close>

definition NamesToBasicStats ::
  "FilenameToBasicStat \<Rightarrow> (string, 'r, 's) Seq \<Rightarrow> (BasicStat \<times> error option, 'r, 's) Seq" where
  "NamesToBasicStats i names = (\<lambda>yield. names (\<lambda>name. yield (i name)))"

section \<open>The JSON lines encoder\<close>

text \<open>
  A line of output is the object it renders. An \<^verbatim>\<open>io.Writer\<close> is its \<^verbatim>\<open>Write\<close>: handed
  lines while it holds the lines received so far, it answers with an error or \<^verbatim>\<open>nil\<close>
  and holds what it chose to take. Nothing makes a writer take what it is handed.
\<close>

type_synonym Writer =
  "BasicStatJson list \<Rightarrow> BasicStatJson list \<Rightarrow> error option \<times> BasicStatJson list"

text \<open>
  \<^verbatim>\<open>bufio.Writer.Flush\<close>: with nothing buffered the writer is not called; otherwise the
  buffer is handed to the writer and the writer's error is the result. (\<^verbatim>\<open>bufio\<close> also
  hands the buffer on when it is full; how a writer takes lines that come in several
  pieces is left to the writer function.)
\<close>

definition Flush ::
  "Writer \<Rightarrow> BasicStatJson list \<Rightarrow> BasicStatJson list \<Rightarrow> error option \<times> BasicStatJson list"
  where
  "Flush Write bw out = (if bw = [] then (None, out) else Write bw out)"

text \<open>
  \<open>enc\<close> is the verdict of \<^verbatim>\<open>json.Encoder.Encode\<close> on an object: \<open>None\<close> when the line
  was written to the buffer, the error otherwise. The state of the loop is the value
  to return and the buffer \<^verbatim>\<open>bw\<close>.
\<close>

definition BasicStatsToWriter_body ::
  "FileTypeToString \<Rightarrow> (BasicStatJson \<Rightarrow> error option) \<Rightarrow>
   (BasicStat \<times> error option, error option \<times> BasicStatJson list) yield" where
  "BasicStatsToWriter_body c enc =
     (\<lambda>(s, e) (ret, bw).
        case e of
          Some err \<Rightarrow> (False, (Some err, bw))
        | None \<Rightarrow>
            (let j = ToJsonObj s c in
             case enc j of
               Some err \<Rightarrow> (False, (Some err, bw))
             | None \<Rightarrow> (True, (ret, bw @ [j]))))"

text \<open>
  \<^verbatim>\<open>BasicStatsToWriter\<close>: the buffer starts empty, and on every way out the deferred
  \<^verbatim>\<open>bw.Flush()\<close> runs and its error is dropped: a line that was encoded reaches the
  output only if the writer takes it then. The result is the error returned, what the
  writer \<open>wtr\<close> holds in the end, and what the sequence left unread.
\<close>

definition BasicStatsToWriter ::
  "FileTypeToString \<Rightarrow> (BasicStatJson \<Rightarrow> error option) \<Rightarrow> Writer \<Rightarrow> BasicStatJson list \<Rightarrow>
   (BasicStat \<times> error option, 'r, error option \<times> BasicStatJson list) Seq \<Rightarrow>
   error option \<times> BasicStatJson list \<times> 'r" where
  "BasicStatsToWriter c enc Write wtr stats =
     (case stats (BasicStatsToWriter_body c enc) (None, []) of
        (rest, (ret, bw)) \<Rightarrow> (ret, snd (Flush Write bw wtr), rest))"

text \<open>The writer \<^verbatim>\<open>os.Stdout\<close> is \<open>Write\<close> together with the lines \<open>stdout\<close> it holds.\<close>

definition BasicStatsToStdout ::
  "FileTypeToString \<Rightarrow> (BasicStatJson \<Rightarrow> error option) \<Rightarrow> Writer \<Rightarrow> BasicStatJson list \<Rightarrow>
   (BasicStat \<times> error option, 'r, error option \<times> BasicStatJson list) Seq \<Rightarrow>
   error option \<times> BasicStatJson list \<times> 'r" where
  "BasicStatsToStdout c enc Write stdout stats = BasicStatsToWriter c enc Write stdout stats"

definition BasicStatsToStdoutDefault ::
  "(BasicStatJson \<Rightarrow> error option) \<Rightarrow> Writer \<Rightarrow> BasicStatJson list \<Rightarrow>
   (BasicStat \<times> error option, 'r, error option \<times> BasicStatJson list) Seq \<Rightarrow>
   error option \<times> BasicStatJson list \<times> 'r" where
  "BasicStatsToStdoutDefault enc Write stdout stats =
     BasicStatsToStdout FileTypeToStringDefault enc Write stdout stats"

text \<open>\<^verbatim>\<open>FilenameToBasicStat.NamesToBasicStatsToStdout\<close>.\<close>

definition NamesToBasicStatsToStdout ::
  "FilenameToBasicStat \<Rightarrow> (BasicStatJson \<Rightarrow> error option) \<Rightarrow> Writer \<Rightarrow> BasicStatJson list \<Rightarrow>
   (string, 'r, error option \<times> BasicStatJson list) Seq \<Rightarrow>
   error option \<times> BasicStatJson list \<times> 'r" where
  "NamesToBasicStatsToStdout i enc Write stdout names =
     (let stats = NamesToBasicStats i names
      in BasicStatsToStdoutDefault enc Write stdout stats)"

text \<open>\<^verbatim>\<open>Root.NamesToBasicStatsToStdout\<close>: the pipeline on an open root.\<close>

definition Root_NamesToBasicStatsToStdout ::
  "Root \<Rightarrow> (BasicStatJson \<Rightarrow> error option) \<Rightarrow> Writer \<Rightarrow> BasicStatJson list \<Rightarrow>
   (string, 'r, error option \<times> BasicStatJson list) Seq \<Rightarrow>
   error option \<times> BasicStatJson list \<times> 'r" where
  "Root_NamesToBasicStatsToStdout r enc Write stdout names =
     NamesToBasicStatsToStdout (ToFilenameToBasicStat r) enc Write stdout names"

section \<open>Consumers and inputs used in the theorems\<close>

text \<open>The consumer that takes every element: \<^verbatim>\<open>for x := range seq { acc = append(acc, x) }\<close>.\<close>

definition consume_all :: "('a, 'a list) yield" where
  "consume_all x acc = (True, acc @ [x])"

text \<open>A consumer together with the log of the elements it was handed.\<close>

definition logged :: "('a, 's) yield \<Rightarrow> ('a, 'a list \<times> 's) yield" where
  "logged yield x =
     (\<lambda>(log, s). case yield x s of (continue, s') \<Rightarrow> (continue, (log @ [x], s')))"

text \<open>The sequence of a single element: \<^verbatim>\<open>func(yield) { yield(x) }\<close>.\<close>

definition single_result :: "'a \<Rightarrow> ('a, unit, 's) Seq" where
  "single_result x yield s = ((), snd (yield x s))"

text \<open>
  Two writers: one that takes every line it is handed, as a healthy standard output
  does, and one that takes nothing and answers every write with an error, as a closed
  pipe does.
\<close>

definition accepting :: Writer where
  "accepting p out = (None, out @ p)"

definition broken :: Writer where
  "broken p out = (Some EncodeFailure, out)"

text \<open>
  An encoder the pipeline can meet: the line fits the buffer and the process runs in
  UTC, so that \<^verbatim>\<open>Encode\<close> fails exactly where \<^verbatim>\<open>time.Time.MarshalJSON\<close> does, on a year
  outside 0 to 9999.
\<close>

definition Encode_utc :: "BasicStatJson \<Rightarrow> error option" where
  "Encode_utc j =
     (if unixSec (json_modified_time j) < - 62167219200
         \<or> 253402300800 \<le> unixSec (json_modified_time j)
      then Some EncodeFailure else None)"

text \<open>
  A root with a regular file \<^verbatim>\<open>a\<close>, a directory \<^verbatim>\<open>c\<close>, a file \<^verbatim>\<open>late\<close> whose
  modification time is the first second of the year 10000, and a link \<^verbatim>\<open>out\<close> that
  leads out of the root; any other name has no entry.
\<close>

definition example_file :: FileInfo where
  "example_file =
     \<lparr>fi_Size = 42, fi_ModTime = \<lparr>unixSec = 1700000000, nsec = 123456789\<rparr>, fi_Mode = 420\<rparr>"

definition example_dir :: FileInfo where
  "example_dir =
     \<lparr>fi_Size = 4096, fi_ModTime = \<lparr>unixSec = 1700000001, nsec = 0\<rparr>,
      fi_Mode = ModeDir OR 493\<rparr>"

definition example_late :: FileInfo where
  "example_late =
     \<lparr>fi_Size = 7, fi_ModTime = \<lparr>unixSec = 253402300800, nsec = 0\<rparr>, fi_Mode = 420\<rparr>"

definition example_root :: Root where
  "example_root name =
     (if name = ''a'' then Found example_file
      else if name = ''c'' then Found example_dir
      else if name = ''late'' then Found example_late
      else if name = ''out'' then Escapes
      else Missing)"

section \<open>Unfolding rules\<close>

lemmas FileType_defs =
  FileTypeUnspecified_def FileTypeBlck_def FileTypeChar_def FileTypeFldr_def
  FileTypeRglr_def FileTypeSyml_def FileTypePipe_def FileTypeSock_def

lemmas Mode_defs =
  ModeDir_def ModeSymlink_def ModeDevice_def ModeNamedPipe_def ModeSocket_def
  ModeCharDevice_def ModeIrregular_def ModeType_def

lemmas Is_defs =
  IsRegular_def IsDir_def IsSymlink_def IsNamedPipe_def IsSocket_def IsCharDevice_def
  IsDevice_def IsBlockDevice_def

lemmas label_defs =
  FileTypeToStringDefault_def ToFileTypeToString_def FileTypeToStringMapDefault_def
  fileTypeToStringMap_def

lemmas pipeline_defs =
  Root_NamesToBasicStatsToStdout_def NamesToBasicStatsToStdout_def
  BasicStatsToStdoutDefault_def BasicStatsToStdout_def BasicStatsToWriter_def
  NamesToBasicStats_def ToFilenameToBasicStat_def

section \<open>Classification\<close>

text \<open>
  C3, as amended. For every mode, \<open>ToFileType\<close> is the first match in the order regular
  file, directory, symbolic link, named pipe, socket, character device (character bit
  set, whatever the device bit), block device (device bit set and character bit not
  set), and unspecified when nothing matches.
\<close>

theorem ToFileType_first_match:
  "ToFileType m = first_match code_precedence m"
  by (simp add: ToFileType_def code_precedence_def IsBlockDevice_def Let_def)

text \<open>
  C3, as stated, fails on the mode that has the character bit and no device bit: the
  list of the specification finds no category there, the source answers character
  device.
\<close>

theorem ToFileType_spec_precedence_counterexample:
  "ToFileType ModeCharDevice = FileTypeChar \<and>
   first_match spec_precedence ModeCharDevice = FileTypeUnspecified \<and>
   FileTypeChar \<noteq> FileTypeUnspecified"
  by (simp add: ToFileType_def spec_precedence_def Is_defs Let_def Mode_defs FileType_defs)

lemma label_unspecified:
  "FileTypeToStringDefault FileTypeUnspecified = ''UNKNOWN FILE TYPE''"
  by (simp add: label_defs FileType_defs)

lemma label_rglr: "FileTypeToStringDefault FileTypeRglr = ''regular file''"
  by (simp add: label_defs FileType_defs)

lemma label_fldr: "FileTypeToStringDefault FileTypeFldr = ''directory''"
  by (simp add: label_defs FileType_defs)

lemma ToFileType_range:
  "ToFileType m \<in> {FileTypeUnspecified, FileTypeRglr, FileTypeFldr, FileTypeSyml,
     FileTypePipe, FileTypeSock, FileTypeChar, FileTypeBlck}"
  by (simp add: ToFileType_def)

text \<open>
  C4, as amended. For every mode the classification is one of the eight codes, which
  are eight different numbers, and a mode that matches no category, a character device
  being a mode with the character bit whatever the device bit, gets the unspecified
  code and with it the label \<open>UNKNOWN FILE TYPE\<close>. \<open>ToFileType\<close> is a total function into
  the codes: it has no error result.
\<close>

theorem ToFileType_closed:
  "ToFileType m \<in> {FileTypeUnspecified, FileTypeRglr, FileTypeFldr, FileTypeSyml,
     FileTypePipe, FileTypeSock, FileTypeChar, FileTypeBlck} \<and>
   distinct [FileTypeUnspecified, FileTypeRglr, FileTypeFldr, FileTypeSyml,
     FileTypePipe, FileTypeSock, FileTypeChar, FileTypeBlck] \<and>
   (list_all (\<lambda>category. \<not> fst category m) code_precedence \<longrightarrow>
      ToFileType m = FileTypeUnspecified \<and>
      FileTypeToStringDefault (ToFileType m) = ''UNKNOWN FILE TYPE'')"
proof -
  have eight: "distinct [FileTypeUnspecified, FileTypeRglr, FileTypeFldr, FileTypeSyml,
     FileTypePipe, FileTypeSock, FileTypeChar, FileTypeBlck]"
    by (simp add: FileType_defs)
  have none: "ToFileType m = FileTypeUnspecified"
    if "list_all (\<lambda>category. \<not> fst category m) code_precedence"
    using that by (auto simp: code_precedence_def ToFileType_def IsBlockDevice_def)
  show ?thesis
    using label_unspecified ToFileType_range [of m] eight none
    by (simp del: distinct.simps)
qed

text \<open>
  Witness for C4, as amended: the mode with the irregular bit alone matches no
  category.
\<close>

theorem ToFileType_closed_witness:
  "list_all (\<lambda>category. \<not> fst category ModeIrregular) code_precedence \<and>
   ToFileType ModeIrregular = FileTypeUnspecified \<and>
   FileTypeToStringDefault (ToFileType ModeIrregular) = ''UNKNOWN FILE TYPE''"
proof -
  have none: "list_all (\<lambda>category. \<not> fst category ModeIrregular) code_precedence"
    by (simp add: code_precedence_def Is_defs Mode_defs)
  show ?thesis
    using none ToFileType_closed [of ModeIrregular] by blast
qed

text \<open>
  C4, as stated, fails on the mode that has the character bit and no device bit: it
  matches no category of the specification, where a character device needs both bits,
  and yet its code is not the unspecified one and its label is not
  \<open>UNKNOWN FILE TYPE\<close>.
\<close>

theorem ToFileType_closed_counterexample:
  "list_all (\<lambda>category. \<not> fst category ModeCharDevice) spec_precedence \<and>
   ToFileType ModeCharDevice = FileTypeChar \<and>
   FileTypeChar \<noteq> FileTypeUnspecified \<and>
   FileTypeToStringDefault (ToFileType ModeCharDevice) = ''character special''"
proof -
  have none: "list_all (\<lambda>category. \<not> fst category ModeCharDevice) spec_precedence"
    by (simp add: spec_precedence_def Is_defs Mode_defs)
  have code: "ToFileType ModeCharDevice = FileTypeChar"
    by (simp add: ToFileType_def Is_defs Mode_defs)
  have label: "FileTypeToStringDefault FileTypeChar = ''character special''"
    by (simp add: label_defs FileType_defs)
  have differ: "FileTypeChar \<noteq> FileTypeUnspecified"
    by (simp add: FileType_defs)
  show ?thesis
    using none code label differ by simp
qed

section \<open>Labels\<close>

text \<open>
  C5. The default labeler maps the eight codes to their labels as the table says, and
  every other code to \<open>UNKNOWN FILE TYPE\<close>.
\<close>

theorem FileTypeToStringDefault_table:
  "FileTypeToStringDefault FileTypeUnspecified = ''UNKNOWN FILE TYPE'' \<and>
   FileTypeToStringDefault FileTypeRglr = ''regular file'' \<and>
   FileTypeToStringDefault FileTypeFldr = ''directory'' \<and>
   FileTypeToStringDefault FileTypeSyml = ''symbolic link'' \<and>
   FileTypeToStringDefault FileTypePipe = ''FIFO'' \<and>
   FileTypeToStringDefault FileTypeSock = ''socket'' \<and>
   FileTypeToStringDefault FileTypeChar = ''character special'' \<and>
   FileTypeToStringDefault FileTypeBlck = ''block special'' \<and>
   (\<forall>typ. typ \<notin> {FileTypeUnspecified, FileTypeRglr, FileTypeFldr, FileTypeSyml,
             FileTypePipe, FileTypeSock, FileTypeChar, FileTypeBlck} \<longrightarrow>
          FileTypeToStringDefault typ = ''UNKNOWN FILE TYPE'')"
  by (simp add: label_defs FileType_defs)

text \<open>Witness for C5: the code 7 is outside the table.\<close>

theorem FileTypeToStringDefault_table_witness:
  "(7 :: FileType) \<notin> {FileTypeUnspecified, FileTypeRglr, FileTypeFldr, FileTypeSyml,
      FileTypePipe, FileTypeSock, FileTypeChar, FileTypeBlck} \<and>
   FileTypeToStringDefault 7 = ''UNKNOWN FILE TYPE''"
  using FileTypeToStringDefault_table by (simp add: FileType_defs)

section \<open>The instant of a microsecond count\<close>

lemma time_Unix_small:
  "0 \<le> ns \<Longrightarrow> ns < 1000000000 \<Longrightarrow> time_Unix sec ns = \<lparr>unixSec = sec, nsec = ns\<rparr>"
  by (simp add: time_Unix_def)

lemma time_Unix_borrow:
  assumes "- 1000000000 < ns" and "ns < 0"
  shows "time_Unix sec ns = \<lparr>unixSec = sec - 1, nsec = ns + 1000000000\<rparr>"
proof -
  have "\<bar>ns\<bar> div 1000000000 = 0"
    using assms by simp
  then have "ns sdiv 1000000000 = 0"
    by (simp add: signed_divide_int_def)
  then show ?thesis
    using assms by (simp add: time_Unix_def Let_def)
qed

lemma time_UnixMicro_nonneg:
  assumes "0 \<le> usec"
  shows "time_UnixMicro usec =
    \<lparr>unixSec = usec div 1000000, nsec = (usec mod 1000000) * 1000\<rparr>"
proof -
  have q: "usec sdiv 1000000 = usec div 1000000"
    using assms by (simp add: signed_divide_int_def sgn_if)
  have r: "usec smod 1000000 = usec mod 1000000"
    using assms by (simp add: signed_modulo_int_def sgn_if)
  have "0 \<le> usec mod 1000000" and "usec mod 1000000 < 1000000"
    by simp_all
  then show ?thesis
    by (simp add: time_UnixMicro_def q r time_Unix_small)
qed

text \<open>
  Below the epoch the truncating division rounds up, and \<^verbatim>\<open>time.Unix\<close> borrows a second
  to make the nanoseconds positive.
\<close>

lemma time_UnixMicro_neg:
  assumes "usec < 0"
  shows "time_UnixMicro usec =
    (if (- usec) mod 1000000 = 0 then \<lparr>unixSec = - ((- usec) div 1000000), nsec = 0\<rparr>
     else \<lparr>unixSec = - ((- usec) div 1000000) - 1,
           nsec = 1000000000 - ((- usec) mod 1000000) * 1000\<rparr>)"
proof -
  have q: "usec sdiv 1000000 = - ((- usec) div 1000000)"
    using assms by (simp add: signed_divide_int_def sgn_if)
  have r: "usec smod 1000000 = - ((- usec) mod 1000000)"
    using assms by (simp add: signed_modulo_int_def sgn_if)
  have bounds: "0 \<le> (- usec) mod 1000000" "(- usec) mod 1000000 < 1000000"
    by simp_all
  show ?thesis
  proof (cases "(- usec) mod 1000000 = 0")
    case True
    then show ?thesis
      by (simp add: time_UnixMicro_def q r time_Unix_small)
  next
    case False
    with bounds have "- 1000000000 < - ((- usec) mod 1000000) * 1000"
      and "- ((- usec) mod 1000000) * 1000 < 0"
      by linarith+
    then have "time_Unix (- ((- usec) div 1000000)) (- ((- usec) mod 1000000) * 1000) =
      \<lparr>unixSec = - ((- usec) div 1000000) - 1,
       nsec = - ((- usec) mod 1000000) * 1000 + 1000000000\<rparr>"
      by (rule time_Unix_borrow)
    with False show ?thesis
      by (simp add: time_UnixMicro_def q r)
  qed
qed

lemma time_UnixMicro_instant:
  "unixSec (time_UnixMicro usec) * 1000000 + nsec (time_UnixMicro usec) div 1000 = usec"
proof (cases "0 \<le> usec")
  case True
  then show ?thesis
    by (simp add: time_UnixMicro_nonneg)
next
  case False
  then have neg: "usec < 0" by simp
  define q where "q = (- usec) div 1000000"
  define r where "r = (- usec) mod 1000000"
  have eq: "usec = - (q * 1000000 + r)"
    by (simp add: q_def r_def)
  have t: "time_UnixMicro usec =
    (if r = 0 then \<lparr>unixSec = - q, nsec = 0\<rparr>
     else \<lparr>unixSec = - q - 1, nsec = 1000000000 - r * 1000\<rparr>)"
    using time_UnixMicro_neg [OF neg] by (simp add: q_def r_def)
  have "1000000000 - r * 1000 = (1000000 - r) * 1000"
    by (simp add: algebra_simps)
  then have d: "(1000000000 - r * 1000) div 1000 = 1000000 - r"
    by simp
  show ?thesis
  proof (cases "r = 0")
    case True
    with eq t show ?thesis by simp
  next
    case False
    with t have "unixSec (time_UnixMicro usec) = - q - 1"
      and "nsec (time_UnixMicro usec) = 1000000000 - r * 1000"
      by simp_all
    with d eq show ?thesis by simp
  qed
qed

lemma time_UnixMicro_nsec:
  "0 \<le> nsec (time_UnixMicro usec) \<and> nsec (time_UnixMicro usec) < 1000000000
   \<and> nsec (time_UnixMicro usec) mod 1000 = 0"
proof (cases "0 \<le> usec")
  case True
  have "usec mod 1000000 < 1000000" by simp
  then have "usec mod 1000000 * 1000 < 1000000000" by linarith
  with True show ?thesis
    by (simp add: time_UnixMicro_nonneg)
next
  case False
  then have neg: "usec < 0" by simp
  have b: "0 \<le> (- usec) mod 1000000" "(- usec) mod 1000000 < 1000000"
    by simp_all
  have m: "(1000000000 - (- usec) mod 1000000 * 1000) mod 1000 = 0"
  proof -
    have "1000000000 - (- usec) mod 1000000 * 1000 = (1000000 - (- usec) mod 1000000) * 1000"
      by (simp add: algebra_simps)
    then show ?thesis by simp
  qed
  show ?thesis
    using b m by (simp add: time_UnixMicro_neg [OF neg]) linarith
qed

text \<open>Reading the microseconds of \<open>ToTime u\<close> back gives \<open>u\<close>: nothing wraps.\<close>

lemma Time_UnixMicro_ToTime: "Time_UnixMicro (ToTime u) = u"
proof -
  have "0 \<le> nsec (ToTime u)"
    using time_UnixMicro_nsec [of "sint u"] by (simp add: ToTime_def)
  then have "nsec (ToTime u) sdiv 1000 = nsec (ToTime u) div 1000"
    by (simp add: signed_divide_int_def sgn_if)
  then show ?thesis
    using time_UnixMicro_instant [of "sint u"] by (simp add: Time_UnixMicro_def ToTime_def)
qed

section \<open>The object of one record\<close>

text \<open>
  The object that \<open>ToJsonObj\<close> with the default labeler makes of a record of size 42,
  modification time \<open>m\<close> microseconds and type directory: \<open>size\<close> is 42, \<open>file_type\<close> is
  \<open>directory\<close>, and \<open>modified_time\<close> is the instant \<open>m\<close> microseconds after the epoch.
\<close>

lemma ToJsonObj_directory_fields:
  "(let j = ToJsonObj \<lparr>Path = p, Size = 42, Modified = m, FileType = FileTypeFldr\<rparr>
              FileTypeToStringDefault;
        t = json_modified_time j
    in json_size j = 42 \<and> json_file_type j = ''directory'' \<and> json_path j = p
       \<and> t = ToTime m
       \<and> unixSec t * 1000000 + nsec t div 1000 = sint m
       \<and> 0 \<le> nsec t \<and> nsec t < 1000000000 \<and> nsec t mod 1000 = 0
       \<and> Time_UnixMicro t = m)"
  using time_UnixMicro_instant [of "sint m"] time_UnixMicro_nsec [of "sint m"]
    Time_UnixMicro_ToTime [of m]
  by (simp add: Let_def ToJsonObj_def label_fldr ToTime_def)

section \<open>Resolving one name\<close>

lemma lookup_a: "NameToInfo example_root ''a'' = Inr example_file"
  by (simp add: NameToInfo_def Root_Stat_def example_root_def)

lemma lookup_b: "NameToInfo example_root ''b'' = Inl NameNotFound"
  by (simp add: NameToInfo_def Root_Stat_def example_root_def)

lemma lookup_late: "NameToInfo example_root ''late'' = Inr example_late"
  by (simp add: NameToInfo_def Root_Stat_def example_root_def)

lemma lookup_out: "example_root ''out'' = Escapes"
  by (simp add: example_root_def)

text \<open>
  C8. When the name resolves, the record returned has the name as its \<open>Path\<close>, exactly
  as it was given, the size of the metadata, the modification time of the metadata in
  microseconds, and the classified mode; the error is \<^verbatim>\<open>nil\<close>.
\<close>

theorem NameToBasicStat_success:
  "NameToInfo r name = Inr fi \<Longrightarrow>
   NameToBasicStat r name =
     (\<lparr>Path = name, Size = fi_Size fi, Modified = Time_UnixMicro (fi_ModTime fi),
       FileType = ToFileType (fi_Mode fi)\<rparr>, None)"
  by (simp add: NameToBasicStat_def WithFullPath_def ToBasicStat_def)

lemma stat_a:
  "NameToBasicStat example_root ''a'' =
     (\<lparr>Path = ''a'', Size = 42, Modified = 1700000000123456, FileType = FileTypeRglr\<rparr>, None)"
proof -
  have mode: "ToFileType (fi_Mode example_file) = FileTypeRglr"
    by (simp add: example_file_def ToFileType_def IsRegular_def Mode_defs)
  have time: "Time_UnixMicro (fi_ModTime example_file) = 1700000000123456"
    by (simp add: example_file_def Time_UnixMicro_def signed_divide_int_def)
  show ?thesis
    using mode time lookup_a
    by (simp add: NameToBasicStat_def WithFullPath_def ToBasicStat_def example_file_def)
qed

text \<open>Witness for C8: the file \<^verbatim>\<open>a\<close> of the example root.\<close>

theorem NameToBasicStat_success_witness:
  "NameToInfo example_root ''a'' = Inr example_file \<and>
   NameToBasicStat example_root ''a'' =
     (\<lparr>Path = ''a'', Size = 42, Modified = 1700000000123456, FileType = FileTypeRglr\<rparr>, None)"
  using NameToBasicStat_success [OF lookup_a] lookup_a stat_a by simp

text \<open>
  C10. When the name does not resolve, the record returned is the zero value (empty
  path, size 0, modification time 0, unspecified type) and the error is the one of the
  failed query.
\<close>

theorem NameToBasicStat_failure:
  "NameToInfo r name = Inl e \<Longrightarrow>
   NameToBasicStat r name =
     (\<lparr>Path = [], Size = 0, Modified = 0, FileType = FileTypeUnspecified\<rparr>, Some e)"
  by (simp add: NameToBasicStat_def empty_BasicStat_def FileTypeUnspecified_def)

text \<open>Witness for C10: the example root has no entry \<^verbatim>\<open>b\<close>.\<close>

theorem NameToBasicStat_failure_witness:
  "NameToInfo example_root ''b'' = Inl NameNotFound \<and>
   NameToBasicStat example_root ''b'' =
     (\<lparr>Path = [], Size = 0, Modified = 0, FileType = FileTypeUnspecified\<rparr>,
      Some NameNotFound)"
  using NameToBasicStat_failure [OF lookup_b] lookup_b by simp

section \<open>The stream of results\<close>

lemma consume_all_run:
  "ReaderToNames names (\<lambda>name. consume_all (i name)) acc = ([], acc @ map i names)"
  by (induction names arbitrary: acc) (simp_all add: consume_all_def)

text \<open>
  C6. Consumed to the end, the stream of \<open>NamesToBasicStats\<close> over the names of a reader
  hands over exactly the results of the names, one for each name and in the order of
  the names, and leaves nothing unread.
\<close>

theorem NamesToBasicStats_one_result_per_name:
  "NamesToBasicStats i (ReaderToNames names) consume_all [] = ([], map i names)"
  by (simp add: NamesToBasicStats_def consume_all_run)

section \<open>The encoder loop\<close>

lemma body_error:
  "BasicStatsToWriter_body c enc (s, Some err) (ret, bw) = (False, (Some err, bw))"
  by (simp add: BasicStatsToWriter_body_def)

lemma body_ok:
  "BasicStatsToWriter_body c enc (s, None) (ret, bw) =
     (case enc (ToJsonObj s c) of
        Some err \<Rightarrow> (False, (Some err, bw))
      | None \<Rightarrow> (True, (ret, bw @ [ToJsonObj s c])))"
  by (simp add: BasicStatsToWriter_body_def Let_def)

text \<open>The loop goes on only after a result without an error.\<close>

lemma body_continue:
  "BasicStatsToWriter_body c enc x st = (True, st') \<Longrightarrow> snd x = None"
  by (cases x; cases st; cases "snd x") (auto simp: body_error)

text \<open>
  A consumer that never goes on after an error, run with its log: the log holds the
  results of a prefix of the names, the rest of the names is unread, only the last
  result logged can carry an error, and the log changes nothing in the run.
\<close>

lemma logged_run:
  assumes stop: "\<And>x st st'. yield x st = (True, st') \<Longrightarrow> snd x = None"
  shows "ReaderToNames names (\<lambda>name. logged yield (i name)) (log0, s) = (rest, (log, s')) \<Longrightarrow>
         \<exists>n\<le>length names.
           log = log0 @ map i (take n names) \<and> rest = drop n names
           \<and> (\<forall>k. Suc k < n \<longrightarrow> snd (i (names ! k)) = None)
           \<and> ReaderToNames names (\<lambda>name. yield (i name)) s = (rest, s')"
proof (induction names arbitrary: log0 s)
  case Nil
  then show ?case by simp
next
  case (Cons a names)
  obtain continue s1 where y: "yield (i a) s = (continue, s1)"
    by (cases "yield (i a) s")
  show ?case
  proof (cases continue)
    case True
    with y Cons.prems
    have "ReaderToNames names (\<lambda>name. logged yield (i name)) (log0 @ [i a], s1)
        = (rest, (log, s'))"
      by (simp add: logged_def)
    from Cons.IH [OF this] obtain n where n: "n \<le> length names"
      "log = (log0 @ [i a]) @ map i (take n names)" "rest = drop n names"
      "\<forall>k. Suc k < n \<longrightarrow> snd (i (names ! k)) = None"
      "ReaderToNames names (\<lambda>name. yield (i name)) s1 = (rest, s')"
      by blast
    from y True have "yield (i a) s = (True, s1)"
      by simp
    then have first: "snd (i a) = None"
      by (rule stop)
    have later: "\<forall>k. Suc k < Suc n \<longrightarrow> snd (i ((a # names) ! k)) = None"
    proof (intro allI impI)
      fix k assume "Suc k < Suc n"
      then show "snd (i ((a # names) ! k)) = None"
        using first n(4) by (cases k) simp_all
    qed
    have "Suc n \<le> length (a # names)" using n(1) by simp
    moreover have "log = log0 @ map i (take (Suc n) (a # names))" using n(2) by simp
    moreover have "rest = drop (Suc n) (a # names)" using n(3) by simp
    moreover have "ReaderToNames (a # names) (\<lambda>name. yield (i name)) s = (rest, s')"
      using y True n(5) by simp
    ultimately show ?thesis using later by blast
  next
    case False
    with y Cons.prems have "log = log0 @ [i a]" "rest = names" "s' = s1"
      by (simp_all add: logged_def)
    then have "1 \<le> length (a # names) \<and> log = log0 @ map i (take 1 (a # names))
      \<and> rest = drop 1 (a # names) \<and> (\<forall>k. Suc k < 1 \<longrightarrow> snd (i ((a # names) ! k)) = None)
      \<and> ReaderToNames (a # names) (\<lambda>name. yield (i name)) s = (rest, s')"
      using y False by simp
    then show ?thesis by blast
  qed
qed

lemma Flush_accepting: "Flush accepting bw out = (None, out @ bw)"
  by (simp add: Flush_def accepting_def)

lemma Flush_broken: "Flush broken bw out = (if bw = [] then None else Some EncodeFailure, out)"
  by (simp add: Flush_def broken_def)

text \<open>
  C7. In a run of the pipeline, let \<open>log\<close> be the results the stream produced for the
  encoder loop. They are the results of the first names of the reader, one for each;
  every name after them is still unread when the run ends; and no result but the last
  one produced carries an error. So once a result with an error is produced, no name
  is pulled and no result is produced after it. The run with the log is the run of
  \<open>BasicStatsToWriter\<close>, whatever the writer; a writer that takes every line ends with
  the lines of the buffer after those it held.
\<close>

theorem pipeline_stops_pulling_at_error:
  assumes "NamesToBasicStats i (ReaderToNames names)
             (logged (BasicStatsToWriter_body c enc)) ([], (None, [])) = (rest, (log, (ret, bw)))"
  shows "log = map i (take (length log) names) \<and> rest = drop (length log) names
         \<and> (\<forall>k. Suc k < length log \<longrightarrow> snd (log ! k) = None)
         \<and> BasicStatsToWriter c enc Write wtr (NamesToBasicStats i (ReaderToNames names))
             = (ret, snd (Flush Write bw wtr), rest)
         \<and> BasicStatsToWriter c enc accepting wtr (NamesToBasicStats i (ReaderToNames names))
             = (ret, wtr @ bw, rest)"
proof -
  have run: "ReaderToNames names (\<lambda>name. logged (BasicStatsToWriter_body c enc) (i name))
      ([], (None, [])) = (rest, (log, (ret, bw)))"
    using assms by (simp add: NamesToBasicStats_def)
  have "\<exists>n\<le>length names.
           log = [] @ map i (take n names) \<and> rest = drop n names
           \<and> (\<forall>k. Suc k < n \<longrightarrow> snd (i (names ! k)) = None)
           \<and> ReaderToNames names (\<lambda>name. BasicStatsToWriter_body c enc (i name)) (None, [])
               = (rest, (ret, bw))"
    using run by (rule logged_run [rotated]) (rule body_continue)
  then obtain n where n: "n \<le> length names"
    "log = map i (take n names)" "rest = drop n names"
    "\<forall>k. Suc k < n \<longrightarrow> snd (i (names ! k)) = None"
    "ReaderToNames names (\<lambda>name. BasicStatsToWriter_body c enc (i name)) (None, [])
       = (rest, (ret, bw))"
    by auto
  have len: "length log = n" using n(1,2) by simp
  have "\<forall>k. Suc k < length log \<longrightarrow> snd (log ! k) = None"
  proof (intro allI impI)
    fix k assume k: "Suc k < length log"
    then have "log ! k = i (names ! k)" using n(1,2) len by simp
    then show "snd (log ! k) = None" using n(4) k len by simp
  qed
  then show ?thesis
    using n len by (simp add: BasicStatsToWriter_def NamesToBasicStats_def Flush_accepting)
qed

section \<open>Runs on the example root\<close>

lemma stat_c:
  "NameToBasicStat example_root ''c'' =
     (\<lparr>Path = ''c'', Size = 4096, Modified = 1700000001000000, FileType = FileTypeFldr\<rparr>, None)"
proof -
  have mode: "ToFileType (fi_Mode example_dir) = FileTypeFldr"
    by (simp add: example_dir_def ToFileType_def IsRegular_def IsDir_def Mode_defs)
  have time: "Time_UnixMicro (fi_ModTime example_dir) = 1700000001000000"
    by (simp add: example_dir_def Time_UnixMicro_def signed_divide_int_def)
  show ?thesis
    using mode time
    by (simp add: NameToBasicStat_def NameToInfo_def Root_Stat_def example_root_def
        WithFullPath_def ToBasicStat_def example_dir_def)
qed

lemma stat_late:
  "NameToBasicStat example_root ''late'' =
     (\<lparr>Path = ''late'', Size = 7, Modified = 253402300800000000, FileType = FileTypeRglr\<rparr>,
      None)"
proof -
  have mode: "ToFileType (fi_Mode example_late) = FileTypeRglr"
    by (simp add: example_late_def ToFileType_def IsRegular_def Mode_defs)
  have time: "Time_UnixMicro (fi_ModTime example_late) = 253402300800000000"
    by (simp add: example_late_def Time_UnixMicro_def signed_divide_int_def)
  show ?thesis
    using mode time
    by (simp add: NameToBasicStat_def NameToInfo_def Root_Stat_def example_root_def
        WithFullPath_def ToBasicStat_def example_late_def)
qed

lemma stat_b: "NameToBasicStat example_root ''b'' = (empty_BasicStat, Some NameNotFound)"
  by (simp add: NameToBasicStat_def NameToInfo_def Root_Stat_def example_root_def)

lemma stat_out: "NameToBasicStat example_root ''out'' = (empty_BasicStat, Some PathEscapesRoot)"
  by (simp add: NameToBasicStat_def NameToInfo_def Root_Stat_def example_root_def)

lemma json_a:
  "ToJsonObj \<lparr>Path = ''a'', Size = 42, Modified = 1700000000123456, FileType = FileTypeRglr\<rparr>
     FileTypeToStringDefault =
   \<lparr>json_path = ''a'', json_size = 42,
    json_modified_time = \<lparr>unixSec = 1700000000, nsec = 123456000\<rparr>,
    json_file_type = ''regular file''\<rparr>"
  by (simp add: ToJsonObj_def ToTime_def time_UnixMicro_nonneg label_rglr)

lemma json_c:
  "ToJsonObj \<lparr>Path = ''c'', Size = 4096, Modified = 1700000001000000, FileType = FileTypeFldr\<rparr>
     FileTypeToStringDefault =
   \<lparr>json_path = ''c'', json_size = 4096,
    json_modified_time = \<lparr>unixSec = 1700000001, nsec = 0\<rparr>,
    json_file_type = ''directory''\<rparr>"
  by (simp add: ToJsonObj_def ToTime_def time_UnixMicro_nonneg label_fldr)

lemma json_late:
  "ToJsonObj
     \<lparr>Path = ''late'', Size = 7, Modified = 253402300800000000, FileType = FileTypeRglr\<rparr>
     FileTypeToStringDefault =
   \<lparr>json_path = ''late'', json_size = 7,
    json_modified_time = \<lparr>unixSec = 253402300800, nsec = 0\<rparr>,
    json_file_type = ''regular file''\<rparr>"
  by (simp add: ToJsonObj_def ToTime_def time_UnixMicro_nonneg label_rglr)

lemmas example_evals =
  stat_a stat_b stat_c stat_out stat_late json_a json_c json_late body_ok body_error
  Encode_utc_def

text \<open>
  Witness for C7: \<^verbatim>\<open>a\<close> resolves, \<^verbatim>\<open>b\<close> does not; two results are produced, the second
  one with the error, and \<^verbatim>\<open>c\<close> is never read.
\<close>

theorem pipeline_stops_pulling_at_error_witness:
  "NamesToBasicStats (NameToBasicStat example_root) (ReaderToNames [''a'', ''b'', ''c''])
     (logged (BasicStatsToWriter_body FileTypeToStringDefault Encode_utc)) ([], (None, []))
   = ([''c''],
      ([(\<lparr>Path = ''a'', Size = 42, Modified = 1700000000123456, FileType = FileTypeRglr\<rparr>,
         None),
        (empty_BasicStat, Some NameNotFound)],
       (Some NameNotFound,
        [\<lparr>json_path = ''a'', json_size = 42,
          json_modified_time = \<lparr>unixSec = 1700000000, nsec = 123456000\<rparr>,
          json_file_type = ''regular file''\<rparr>]))) \<and>
   [''c''] = drop 2 [''a'', ''b'', ''c''] \<and>
   BasicStatsToWriter FileTypeToStringDefault Encode_utc accepting []
     (NamesToBasicStats (NameToBasicStat example_root) (ReaderToNames [''a'', ''b'', ''c'']))
   = (Some NameNotFound,
      [\<lparr>json_path = ''a'', json_size = 42,
        json_modified_time = \<lparr>unixSec = 1700000000, nsec = 123456000\<rparr>,
        json_file_type = ''regular file''\<rparr>],
      [''c''])"
proof -
  have run:
    "NamesToBasicStats (NameToBasicStat example_root) (ReaderToNames [''a'', ''b'', ''c''])
       (logged (BasicStatsToWriter_body FileTypeToStringDefault Encode_utc)) ([], (None, []))
     = ([''c''],
        ([(\<lparr>Path = ''a'', Size = 42, Modified = 1700000000123456, FileType = FileTypeRglr\<rparr>,
           None),
          (empty_BasicStat, Some NameNotFound)],
         (Some NameNotFound,
          [\<lparr>json_path = ''a'', json_size = 42,
            json_modified_time = \<lparr>unixSec = 1700000000, nsec = 123456000\<rparr>,
            json_file_type = ''regular file''\<rparr>])))"
    by (simp add: NamesToBasicStats_def logged_def example_evals)
  from pipeline_stops_pulling_at_error [OF run, of accepting "[]"]
  show ?thesis using run by (simp add: Flush_accepting)
qed

section \<open>The pipeline on an open root\<close>

lemma NameToBasicStat_path:
  "NameToBasicStat r n = (s, None) \<Longrightarrow> Path s = n \<and> (\<exists>fi. r n = Found fi)"
  by (cases "r n")
     (auto simp: NameToBasicStat_def NameToInfo_def Root_Stat_def WithFullPath_def)

text \<open>Every line the loop adds to the buffer is the record of a name found inside the root.\<close>

lemma written_paths:
  "ReaderToNames names (\<lambda>name. BasicStatsToWriter_body c enc (NameToBasicStat r name)) (ret, bw)
     = (rest, (ret', bw')) \<Longrightarrow>
   \<exists>new. bw' = bw @ new \<and> (\<forall>j\<in>set new. \<exists>fi. r (json_path j) = Found fi)"
proof (induction names arbitrary: ret bw)
  case Nil
  then show ?case by simp
next
  case (Cons a names)
  obtain s e where res: "NameToBasicStat r a = (s, e)"
    by (cases "NameToBasicStat r a")
  show ?case
  proof (cases e)
    case (Some err)
    with res Cons.prems have "bw' = bw"
      by (simp add: body_error)
    then show ?thesis by simp
  next
    case None
    note ok = this
    show ?thesis
    proof (cases "enc (ToJsonObj s c)")
      case (Some err)
      with res ok Cons.prems have "bw' = bw"
        by (simp add: body_ok)
      then show ?thesis by simp
    next
      case None
      with res ok Cons.prems
      have "ReaderToNames names
              (\<lambda>name. BasicStatsToWriter_body c enc (NameToBasicStat r name))
              (ret, bw @ [ToJsonObj s c]) = (rest, (ret', bw'))"
        by (simp add: body_ok)
      from Cons.IH [OF this] obtain new where new:
        "bw' = (bw @ [ToJsonObj s c]) @ new" "\<forall>j\<in>set new. \<exists>fi. r (json_path j) = Found fi"
        by blast
      from res ok have "\<exists>fi. r (json_path (ToJsonObj s c)) = Found fi"
        using NameToBasicStat_path [of r a s] by (simp add: ToJsonObj_def)
      with new have "bw' = bw @ (ToJsonObj s c # new)
        \<and> (\<forall>j\<in>set (ToJsonObj s c # new). \<exists>fi. r (json_path j) = Found fi)"
        by simp
      then show ?thesis by blast
    qed
  qed
qed

text \<open>
  C1. When the walk of a name would leave the root, \<open>NameToBasicStat\<close> fails on it with
  \<open>PathEscapesRoot\<close>, and whatever the names, the encoder, the writer and the output so
  far, no line that the pipeline hands to the writer is a record with that name as its
  path; with a writer that takes every line, the output is the output so far followed
  by lines none of which is a record with that name.
\<close>

theorem escaping_name_is_rejected:
  assumes "r name = Escapes"
  shows "NameToBasicStat r name = (empty_BasicStat, Some PathEscapesRoot) \<and>
         (\<exists>new. fst (snd (Root_NamesToBasicStatsToStdout r enc accepting stdout
                            (ReaderToNames names)))
                = stdout @ new
              \<and> (\<forall>j\<in>set new. json_path j \<noteq> name)) \<and>
         (\<exists>bw. fst (snd (Root_NamesToBasicStatsToStdout r enc Write stdout
                           (ReaderToNames names)))
                = snd (Flush Write bw stdout)
              \<and> (\<forall>j\<in>set bw. json_path j \<noteq> name))"
proof -
  have fails: "NameToBasicStat r name = (empty_BasicStat, Some PathEscapesRoot)"
    using assms by (simp add: NameToBasicStat_def NameToInfo_def Root_Stat_def)
  obtain rest ret bw where run:
    "ReaderToNames names
       (\<lambda>name. BasicStatsToWriter_body FileTypeToStringDefault enc (NameToBasicStat r name))
       (None, []) = (rest, (ret, bw))"
    by (metis surj_pair)
  from written_paths [OF run] have found: "\<forall>j\<in>set bw. \<exists>fi. r (json_path j) = Found fi"
    by simp
  have other: "\<forall>j\<in>set bw. json_path j \<noteq> name"
  proof
    fix j assume "j \<in> set bw"
    with found obtain fi where "r (json_path j) = Found fi" by blast
    with assms show "json_path j \<noteq> name" by auto
  qed
  have any: "fst (snd (Root_NamesToBasicStatsToStdout r enc W stdout (ReaderToNames names)))
    = snd (Flush W bw stdout)" for W
    using run by (simp add: pipeline_defs)
  have taken: "fst (snd (Root_NamesToBasicStatsToStdout r enc accepting stdout
      (ReaderToNames names))) = stdout @ bw"
    using any [of accepting] by (simp add: Flush_accepting)
  show ?thesis
    using fails other any [of Write] taken by blast
qed

text \<open>
  Witness for C1: the link \<^verbatim>\<open>out\<close> of the example root leads out of it; the run stops
  there with the two lines written before.
\<close>

theorem escaping_name_is_rejected_witness:
  "example_root ''out'' = Escapes \<and>
   NameToBasicStat example_root ''out'' = (empty_BasicStat, Some PathEscapesRoot) \<and>
   Root_NamesToBasicStatsToStdout example_root Encode_utc accepting []
     (ReaderToNames [''a'', ''c'', ''out'', ''a''])
     = (Some PathEscapesRoot,
        [\<lparr>json_path = ''a'', json_size = 42,
          json_modified_time = \<lparr>unixSec = 1700000000, nsec = 123456000\<rparr>,
          json_file_type = ''regular file''\<rparr>,
         \<lparr>json_path = ''c'', json_size = 4096,
          json_modified_time = \<lparr>unixSec = 1700000001, nsec = 0\<rparr>,
          json_file_type = ''directory''\<rparr>],
        [''a''])"
proof -
  have run: "Root_NamesToBasicStatsToStdout example_root Encode_utc accepting []
      (ReaderToNames [''a'', ''c'', ''out'', ''a''])
     = (Some PathEscapesRoot,
        [\<lparr>json_path = ''a'', json_size = 42,
          json_modified_time = \<lparr>unixSec = 1700000000, nsec = 123456000\<rparr>,
          json_file_type = ''regular file''\<rparr>,
         \<lparr>json_path = ''c'', json_size = 4096,
          json_modified_time = \<lparr>unixSec = 1700000001, nsec = 0\<rparr>,
          json_file_type = ''directory''\<rparr>],
        [''a''])"
    by (simp add: pipeline_defs example_evals Flush_accepting)
  from escaping_name_is_rejected [where r = example_root and name = "''out''"
      and enc = Encode_utc and Write = accepting and stdout = "[]"
      and names = "[''a'', ''c'', ''out'', ''a'']", OF lookup_out]
  show ?thesis using lookup_out run by simp
qed

text \<open>
  C2, as amended. For names \<open>a\<close>, \<open>b\<close>, \<open>c\<close> where \<open>a\<close> resolves, its record is encoded
  without error and the writer takes the line when the buffer is flushed, and \<open>b\<close> does
  not resolve, the pipeline returns the error of \<open>b\<close>, the output is the output before
  the run followed by the one line of \<open>a\<close>, and \<open>c\<close> is left unread.
\<close>

theorem pipeline_stops_at_failed_name:
  assumes a: "NameToInfo r a = Inr fa"
    and enc: "enc (ToJsonObj (WithFullPath (ToBasicStat fa) a) FileTypeToStringDefault) = None"
    and taken: "Write [ToJsonObj (WithFullPath (ToBasicStat fa) a) FileTypeToStringDefault] stdout
      = (None, stdout @ [ToJsonObj (WithFullPath (ToBasicStat fa) a) FileTypeToStringDefault])"
    and b: "NameToInfo r b = Inl e"
  shows "Root_NamesToBasicStatsToStdout r enc Write stdout (ReaderToNames [a, b, c]) =
           (Some e,
            stdout @ [ToJsonObj (WithFullPath (ToBasicStat fa) a) FileTypeToStringDefault],
            [c])"
proof -
  have sa: "NameToBasicStat r a = (WithFullPath (ToBasicStat fa) a, None)"
    using a by (simp add: NameToBasicStat_def)
  have sb: "NameToBasicStat r b = (empty_BasicStat, Some e)"
    using b by (simp add: NameToBasicStat_def)
  show ?thesis
    by (simp add: pipeline_defs sa sb body_ok body_error enc Flush_def taken)
qed

text \<open>Witness for C2, as amended: the names \<^verbatim>\<open>a\<close>, \<^verbatim>\<open>b\<close>, \<^verbatim>\<open>c\<close> on the example root.\<close>

theorem pipeline_stops_at_failed_name_witness:
  "NameToInfo example_root ''a'' = Inr example_file \<and>
   Encode_utc (ToJsonObj (WithFullPath (ToBasicStat example_file) ''a'') FileTypeToStringDefault)
     = None \<and>
   accepting [ToJsonObj (WithFullPath (ToBasicStat example_file) ''a'') FileTypeToStringDefault] []
     = (None,
        [] @ [ToJsonObj (WithFullPath (ToBasicStat example_file) ''a'') FileTypeToStringDefault])
   \<and>
   NameToInfo example_root ''b'' = Inl NameNotFound \<and>
   Root_NamesToBasicStatsToStdout example_root Encode_utc accepting []
     (ReaderToNames [''a'', ''b'', ''c''])
     = (Some NameNotFound,
        [\<lparr>json_path = ''a'', json_size = 42,
          json_modified_time = \<lparr>unixSec = 1700000000, nsec = 123456000\<rparr>,
          json_file_type = ''regular file''\<rparr>],
        [''c''])"
proof -
  have rec: "WithFullPath (ToBasicStat example_file) ''a'' =
      \<lparr>Path = ''a'', Size = 42, Modified = 1700000000123456, FileType = FileTypeRglr\<rparr>"
    using stat_a lookup_a by (simp add: NameToBasicStat_def)
  have enc: "Encode_utc (ToJsonObj (WithFullPath (ToBasicStat example_file) ''a'')
      FileTypeToStringDefault) = None"
    by (simp add: rec json_a Encode_utc_def)
  have taken:
    "accepting [ToJsonObj (WithFullPath (ToBasicStat example_file) ''a'')
        FileTypeToStringDefault] []
     = (None,
        [] @ [ToJsonObj (WithFullPath (ToBasicStat example_file) ''a'')
          FileTypeToStringDefault])"
    by (simp add: accepting_def)
  from pipeline_stops_at_failed_name [where r = example_root and a = "''a''"
      and fa = example_file and enc = Encode_utc and Write = accepting and b = "''b''"
      and e = NameNotFound and stdout = "[]" and c = "''c''", OF lookup_a enc taken lookup_b]
  show ?thesis using lookup_a enc taken lookup_b by (simp add: rec json_a)
qed

text \<open>
  C2, as stated, fails in two ways though the first name resolves and the second does
  not. When the record of the first name cannot be encoded (\<^verbatim>\<open>late\<close>), the loop returns
  at the failed \<^verbatim>\<open>Encode\<close> before \<^verbatim>\<open>b\<close> is read: no line is written and the error
  returned is not the one of \<^verbatim>\<open>b\<close>. When the writer takes nothing, the line of \<^verbatim>\<open>a\<close>
  is encoded into the buffer and the error of \<^verbatim>\<open>b\<close> is returned, but the deferred
  flush fails, its error is dropped, and no line is in the output.
\<close>

theorem pipeline_lost_line_counterexample:
  "NameToInfo example_root ''late'' = Inr example_late \<and>
   NameToInfo example_root ''b'' = Inl NameNotFound \<and>
   Root_NamesToBasicStatsToStdout example_root Encode_utc accepting []
     (ReaderToNames [''late'', ''b'', ''c''])
     = (Some EncodeFailure, [], [''b'', ''c'']) \<and>
   NameToInfo example_root ''a'' = Inr example_file \<and>
   Root_NamesToBasicStatsToStdout example_root Encode_utc broken []
     (ReaderToNames [''a'', ''b'', ''c''])
     = (Some NameNotFound, [], [''c''])"
  by (simp add: pipeline_defs example_evals lookup_late lookup_b lookup_a
      Flush_accepting Flush_broken)

section \<open>Encoding one record\<close>

lemma single_run:
  "enc (ToJsonObj b c) = None \<Longrightarrow>
   BasicStatsToWriter c enc Write wtr (single_result (b, None))
     = (None, snd (Flush Write [ToJsonObj b c] wtr), ())"
  by (simp add: BasicStatsToWriter_def single_result_def body_ok)

text \<open>
  C9, as amended. When a record of size 42, modification time \<open>m\<close> microseconds and
  type directory is encoded with the default labeler, \<^verbatim>\<open>Encode\<close> accepts its object and
  the writer takes the line, then exactly one line is added to the output and no error
  is returned; the line has \<open>size\<close> 42, \<open>file_type\<close> \<open>directory\<close>, and as \<open>modified_time\<close>
  the instant \<open>m\<close> microseconds after the epoch: its seconds and nanoseconds add up to
  \<open>m\<close> microseconds exactly, the nanoseconds lie within one second, and its microsecond
  reading is \<open>m\<close> again.
\<close>

theorem encoded_directory_line:
  "(let b = \<lparr>Path = p, Size = 42, Modified = m, FileType = FileTypeFldr\<rparr>;
        j = ToJsonObj b FileTypeToStringDefault;
        t = json_modified_time j
    in enc j = None \<and> Write [j] wtr = (None, wtr @ [j]) \<longrightarrow>
       BasicStatsToWriter FileTypeToStringDefault enc Write wtr (single_result (b, None))
         = (None, wtr @ [j], ())
       \<and> json_size j = 42 \<and> json_file_type j = ''directory'' \<and> json_path j = p
       \<and> t = ToTime m
       \<and> unixSec t * 1000000 + nsec t div 1000 = sint m
       \<and> 0 \<le> nsec t \<and> nsec t < 1000000000 \<and> nsec t mod 1000 = 0
       \<and> Time_UnixMicro t = m)"
proof -
  define b where "b = \<lparr>Path = p, Size = 42, Modified = m, FileType = FileTypeFldr\<rparr>"
  define j where "j = ToJsonObj b FileTypeToStringDefault"
  have fields: "json_size j = 42 \<and> json_file_type j = ''directory'' \<and> json_path j = p
       \<and> json_modified_time j = ToTime m
       \<and> unixSec (json_modified_time j) * 1000000 + nsec (json_modified_time j) div 1000
           = sint m
       \<and> 0 \<le> nsec (json_modified_time j) \<and> nsec (json_modified_time j) < 1000000000
       \<and> nsec (json_modified_time j) mod 1000 = 0
       \<and> Time_UnixMicro (json_modified_time j) = m"
    unfolding j_def b_def
    by (rule ToJsonObj_directory_fields [of p m, unfolded Let_def])
  have line: "BasicStatsToWriter FileTypeToStringDefault enc Write wtr (single_result (b, None))
      = (None, wtr @ [j], ())"
    if "enc j = None" and "Write [j] wtr = (None, wtr @ [j])"
    using that single_run [of enc b FileTypeToStringDefault Write wtr]
    by (simp add: j_def Flush_def)
  show ?thesis
    using fields line unfolding Let_def b_def [symmetric] j_def [symmetric] by blast
qed

text \<open>
  Witness for C9, as amended: a directory last modified 1700000001 seconds after the
  epoch, a writer that takes every line.
\<close>

theorem encoded_directory_line_witness:
  "Encode_utc
     (ToJsonObj \<lparr>Path = ''c'', Size = 42, Modified = 1700000001000000, FileType = FileTypeFldr\<rparr>
        FileTypeToStringDefault) = None \<and>
   BasicStatsToWriter FileTypeToStringDefault Encode_utc accepting []
     (single_result
        (\<lparr>Path = ''c'', Size = 42, Modified = 1700000001000000, FileType = FileTypeFldr\<rparr>,
         None))
     = (None,
        [\<lparr>json_path = ''c'', json_size = 42,
          json_modified_time = \<lparr>unixSec = 1700000001, nsec = 0\<rparr>,
          json_file_type = ''directory''\<rparr>],
        ())"
proof -
  have j: "ToJsonObj
      \<lparr>Path = ''c'', Size = 42, Modified = 1700000001000000, FileType = FileTypeFldr\<rparr>
      FileTypeToStringDefault =
    \<lparr>json_path = ''c'', json_size = 42,
     json_modified_time = \<lparr>unixSec = 1700000001, nsec = 0\<rparr>,
     json_file_type = ''directory''\<rparr>"
    by (simp add: ToJsonObj_def ToTime_def time_UnixMicro_nonneg label_fldr)
  have enc: "Encode_utc
     (ToJsonObj \<lparr>Path = ''c'', Size = 42, Modified = 1700000001000000, FileType = FileTypeFldr\<rparr>
        FileTypeToStringDefault) = None"
    by (simp add: j Encode_utc_def)
  from encoded_directory_line [where p = "''c''" and m = 1700000001000000
      and enc = Encode_utc and Write = accepting and wtr = "[]"]
  show ?thesis using enc by (simp add: Let_def j accepting_def)
qed

text \<open>
  C9, as stated, fails for a modification time in the year 10000: \<^verbatim>\<open>Encode\<close> refuses
  the object, the error is returned and no line is produced.
\<close>

theorem encoded_directory_line_counterexample:
  "Encode_utc
     (ToJsonObj
        \<lparr>Path = ''c'', Size = 42, Modified = 253402300800000000, FileType = FileTypeFldr\<rparr>
        FileTypeToStringDefault) = Some EncodeFailure \<and>
   BasicStatsToWriter FileTypeToStringDefault Encode_utc accepting []
     (single_result
        (\<lparr>Path = ''c'', Size = 42, Modified = 253402300800000000, FileType = FileTypeFldr\<rparr>,
         None))
     = (Some EncodeFailure, [], ())"
proof -
  have j: "ToJsonObj
      \<lparr>Path = ''c'', Size = 42, Modified = 253402300800000000, FileType = FileTypeFldr\<rparr>
      FileTypeToStringDefault =
    \<lparr>json_path = ''c'', json_size = 42,
     json_modified_time = \<lparr>unixSec = 253402300800, nsec = 0\<rparr>,
     json_file_type = ''directory''\<rparr>"
    by (simp add: ToJsonObj_def ToTime_def time_UnixMicro_nonneg label_fldr)
  show ?thesis
    by (simp add: j Encode_utc_def BasicStatsToWriter_def single_result_def body_ok
        Flush_accepting)
qed

end
